theory Spec2Isabelle
  imports Main
begin

section \<open>The paginated fetch controller \<open>useFetchData\<close>\<close>

text \<open>
  A shallow embedding of \<^verbatim>\<open>src/useFetchData.tsx\<close>. The hook body is a function that React
  runs once per render. Every run reads the state cells (\<^verbatim>\<open>useState\<close>) and the two
  \<^verbatim>\<open>usePrevious\<close> refs into constants, and every function the body creates
  (\<^verbatim>\<open>fetchList\<close>, \<^verbatim>\<open>fetchMore\<close>, the effect callbacks, the returned actions) closes over the
  constants of that run. The model therefore has two records: \<open>Hook\<close>, the cells that React
  keeps between renders, and \<open>Closure\<close>, the constants of one run of the body. A state
  setter writes a cell of the \<open>Hook\<close>; it never changes the \<open>Closure\<close> it is called from.
\<close>

subsection \<open>JavaScript numbers and the operators the hook applies to them\<close>

text \<open>
  The numeric fields are read with \<^verbatim>\<open>!x\<close>, \<^verbatim>\<open>===\<close>, \<^verbatim>\<open>!== undefined\<close>, \<^verbatim>\<open>||\<close>, a destructuring
  default, \<^verbatim>\<open>+\<close>, \<^verbatim>\<open>*\<close>, \<^verbatim>\<open>>\<close> and \<^verbatim>\<open><=\<close>. A value is \<^verbatim>\<open>undefined\<close>, \<^verbatim>\<open>NaN\<close>, an infinity, or
  \<open>Num n\<close> for an integer \<open>n\<close> that a double holds exactly; fractions and the negative
  zero are left out.
\<close>

datatype jsnum = Undefined | NaN | PosInfinity | NegInfinity | Num int

text \<open>
  The result of \<^verbatim>\<open>+\<close> and \<^verbatim>\<open>*\<close> is the double nearest to the exact result, the one with the
  even significand when two are equally near. For a natural number \<open>n\<close>, \<open>expo n\<close> is the
  number of low bits that a significand of 53 bits cannot hold (\<open>9007199254740992\<close> is
  \<open>2 ^ 53\<close>), and \<open>round_nat n\<close> rounds them away.
\<close>

fun expo :: "nat \<Rightarrow> nat" where
  "expo n = (if n < 9007199254740992 then 0 else Suc (expo (n div 2)))"

definition round_nat :: "nat \<Rightarrow> nat" where
  "round_nat n =
     (let e = expo n; q = n div 2 ^ e; r = n mod 2 ^ e
      in if 2 ^ e < 2 * r \<or> (2 * r = 2 ^ e \<and> odd q) then (q + 1) * 2 ^ e else q * 2 ^ e)"

text \<open>A result that rounds to \<open>2 ^ 1024\<close> or beyond is an infinity.\<close>

definition to_double :: "int \<Rightarrow> jsnum" where
  "to_double n =
     (let m = int (round_nat (nat \<bar>n\<bar>))
      in if 2 ^ 1024 \<le> m then (if n < 0 then NegInfinity else PosInfinity)
         else Num (if n < 0 then - m else m))"

fun truthy :: "jsnum \<Rightarrow> bool" where
  "truthy (Num n) = (n \<noteq> 0)"
| "truthy PosInfinity = True"
| "truthy NegInfinity = True"
| "truthy Undefined = False"
| "truthy NaN = False"

fun strict_eq :: "jsnum \<Rightarrow> jsnum \<Rightarrow> bool" where
  "strict_eq (Num a) (Num b) = (a = b)"
| "strict_eq Undefined Undefined = True"
| "strict_eq PosInfinity PosInfinity = True"
| "strict_eq NegInfinity NegInfinity = True"
| "strict_eq _ _ = False"

definition js_or :: "jsnum \<Rightarrow> jsnum \<Rightarrow> jsnum" where
  "js_or a b = (if truthy a then a else b)"

definition js_default :: "jsnum \<Rightarrow> jsnum \<Rightarrow> jsnum" where
  "js_default a d = (if a = Undefined then d else a)"

text \<open>\<^verbatim>\<open>undefined\<close> becomes \<^verbatim>\<open>NaN\<close> under an arithmetic operator, and so does \<^verbatim>\<open>Infinity - Infinity\<close>.\<close>

fun js_add :: "jsnum \<Rightarrow> jsnum \<Rightarrow> jsnum" where
  "js_add (Num a) (Num b) = to_double (a + b)"
| "js_add PosInfinity (Num b) = PosInfinity"
| "js_add (Num a) PosInfinity = PosInfinity"
| "js_add PosInfinity PosInfinity = PosInfinity"
| "js_add NegInfinity (Num b) = NegInfinity"
| "js_add (Num a) NegInfinity = NegInfinity"
| "js_add NegInfinity NegInfinity = NegInfinity"
| "js_add _ _ = NaN"

text \<open>The sign of a number, and the infinity of a sign (\<^verbatim>\<open>Infinity * 0\<close> is \<^verbatim>\<open>NaN\<close>).\<close>

fun js_sign :: "jsnum \<Rightarrow> int" where
  "js_sign (Num a) = sgn a"
| "js_sign PosInfinity = 1"
| "js_sign NegInfinity = - 1"
| "js_sign _ = 0"

definition signed_infinity :: "int \<Rightarrow> jsnum" where
  "signed_infinity s = (if 0 < s then PosInfinity else if s < 0 then NegInfinity else NaN)"

fun js_mul :: "jsnum \<Rightarrow> jsnum \<Rightarrow> jsnum" where
  "js_mul (Num a) (Num b) = to_double (a * b)"
| "js_mul Undefined _ = NaN"
| "js_mul NaN _ = NaN"
| "js_mul _ Undefined = NaN"
| "js_mul _ NaN = NaN"
| "js_mul x y = signed_infinity (js_sign x * js_sign y)"

text \<open>A comparison with \<^verbatim>\<open>undefined\<close> or \<^verbatim>\<open>NaN\<close> is false.\<close>

fun js_gt :: "jsnum \<Rightarrow> jsnum \<Rightarrow> bool" where
  "js_gt (Num a) (Num b) = (b < a)"
| "js_gt PosInfinity (Num b) = True"
| "js_gt PosInfinity NegInfinity = True"
| "js_gt (Num a) NegInfinity = True"
| "js_gt _ _ = False"

fun js_le :: "jsnum \<Rightarrow> jsnum \<Rightarrow> bool" where
  "js_le (Num a) (Num b) = (a \<le> b)"
| "js_le (Num a) PosInfinity = True"
| "js_le NegInfinity (Num b) = True"
| "js_le NegInfinity PosInfinity = True"
| "js_le PosInfinity PosInfinity = True"
| "js_le NegInfinity NegInfinity = True"
| "js_le _ _ = False"

subsection \<open>Data model\<close>

text \<open>\<^verbatim>\<open>interface PageInfo\<close> (lines 33-38).\<close>

record PageInfo =
  hasMore :: bool
  page :: jsnum
  pageSize :: jsnum
  total :: jsnum

text \<open>
  \<^verbatim>\<open>Partial<PageInfo>\<close>, the argument of the exposed \<^verbatim>\<open>setPageInfo\<close>: \<open>None\<close> is a property
  that the object does not have, \<open>Some v\<close> a property it has (\<open>Some Undefined\<close> is
  \<^verbatim>\<open>{page: undefined}\<close>).
\<close>

record PartialPageInfo =
  hasMore_given :: "bool option"
  page_given :: "jsnum option"
  pageSize_given :: "jsnum option"
  total_given :: "jsnum option"

text \<open>The object spread \<^verbatim>\<open>{...pageInfo, ...info}\<close> of lines 176-179.\<close>

definition spread :: "PageInfo \<Rightarrow> PartialPageInfo \<Rightarrow> PageInfo" where
  "spread p info =
     \<lparr> hasMore = (case hasMore_given info of None \<Rightarrow> hasMore p | Some v \<Rightarrow> v),
       page = (case page_given info of None \<Rightarrow> page p | Some v \<Rightarrow> v),
       pageSize = (case pageSize_given info of None \<Rightarrow> pageSize p | Some v \<Rightarrow> v),
       total = (case total_given info of None \<Rightarrow> total p | Some v \<Rightarrow> v) \<rparr>"

text \<open>
  \<^verbatim>\<open>interface RequestData<T>\<close> (lines 13-17), as the hook reads it: \<^verbatim>\<open>data\<close> may be missing
  at run time (the hook itself substitutes \<^verbatim>\<open>{}\<close> for a falsy response), \<^verbatim>\<open>success\<close> and
  \<^verbatim>\<open>total\<close> are optional.
\<close>

record 'a RequestData =
  data :: "'a list option"
  success :: "bool option"
  resp_total :: jsnum

text \<open>
  How the promise of \<^verbatim>\<open>getData\<close> settles: fulfilled with a response (\<open>None\<close> is a falsy
  value, replaced by \<^verbatim>\<open>{}\<close> on line 90) or rejected with a reason.
\<close>

datatype ('a, 'r) outcome = Resolved "'a RequestData option" | Rejected 'r

text \<open>
  What the \<^verbatim>\<open>catch\<close> clause of \<^verbatim>\<open>fetchList\<close> can receive: the rejection reason of
  \<^verbatim>\<open>getData\<close>, or the \<^verbatim>\<open>TypeError\<close> of spreading a missing \<^verbatim>\<open>data\<close> or of reading
  \<^verbatim>\<open>.length\<close> of a missing list.
\<close>

datatype 'r error = Rejection 'r | TypeError

text \<open>
  The calls the hook makes to the functions it was given. They are opaque to the hook, so
  the model records them in call order; the callbacks are taken to return normally.
\<close>

datatype ('a, 'r) event =
    GetData jsnum jsnum
  | OnLoad "'a list option"
  | OnRequestError "'r error"

text \<open>
  The third argument of the hook (lines 43-49). A field that the caller leaves out is
  \<open>Undefined\<close> (\<open>None\<close> for \<^verbatim>\<open>effects\<close>); the whole object may be left out.
\<close>

record 'e Options =
  opt_defaultCurrent :: jsnum
  opt_defaultPageSize :: jsnum
  opt_effects :: "'e list option"

text \<open>
  The cells that live across renders: the three \<^verbatim>\<open>useState\<close> cells (lines 58-66), the two
  refs of \<^verbatim>\<open>usePrevious\<close> (lines 69-70), the dependency values that React remembers for the
  three \<^verbatim>\<open>useEffect\<close> calls with a dependency array (\<open>None\<close> before the first commit), and
  the trace of outgoing calls.
\<close>

record ('a, 'r, 'e) Hook =
  listState :: "'a list option"
  loadingState :: "bool option"
  pageInfoState :: PageInfo
  prePageRef :: jsnum
  prePageSizeRef :: jsnum
  depsMemo :: "(jsnum \<times> jsnum \<times> 'e list) option"
  trace :: "('a, 'r) event list"

text \<open>The constants of one run of the hook body, under the names the source gives them.\<close>

record 'a Closure =
  defaultPageSize :: jsnum
  defaultCurrent :: jsnum
  list :: "'a list option"
  loading :: "bool option"
  pageInfo :: PageInfo
  prePage :: jsnum
  prePageSize :: jsnum

text \<open>A fetch that is suspended at its \<^verbatim>\<open>await\<close>: the closure it runs in and its argument.\<close>

type_synonym 'a pending = "'a Closure \<times> bool"

text \<open>The state of the promise that an \<^verbatim>\<open>async\<close> function returned, once it has settled.\<close>

datatype 'r promise = Fulfilled | RejectedWith "'r error"

subsection \<open>Construction and render\<close>

text \<open>Lines 51-56: the destructuring defaults of \<^verbatim>\<open>options || {}\<close>.\<close>

definition resolve_defaultPageSize :: "'e Options option \<Rightarrow> jsnum" where
  "resolve_defaultPageSize options =
     (case options of None \<Rightarrow> Num 20 | Some opt \<Rightarrow> js_default (opt_defaultPageSize opt) (Num 20))"

definition resolve_defaultCurrent :: "'e Options option \<Rightarrow> jsnum" where
  "resolve_defaultCurrent options =
     (case options of None \<Rightarrow> Num 1 | Some opt \<Rightarrow> js_default (opt_defaultCurrent opt) (Num 1))"

text \<open>Line 72.\<close>

definition resolve_effects :: "'e Options option \<Rightarrow> 'e list" where
  "resolve_effects options =
     (case options of None \<Rightarrow> [] | Some opt \<Rightarrow> (case opt_effects opt of None \<Rightarrow> [] | Some es \<Rightarrow> es))"

text \<open>
  The initial values of the cells: React uses the argument of \<^verbatim>\<open>useState\<close> and leaves a
  ref \<^verbatim>\<open>undefined\<close> on the first run of the body only.
\<close>

definition useFetchData_init :: "'a list option \<Rightarrow> 'e Options option \<Rightarrow> ('a, 'r, 'e) Hook" where
  "useFetchData_init defaultData options =
     \<lparr> listState = defaultData,
       loadingState = None,
       pageInfoState =
         \<lparr> hasMore = False,
           page = js_or (resolve_defaultCurrent options) (Num 1),
           pageSize = resolve_defaultPageSize options,
           total = Num 0 \<rparr>,
       prePageRef = Undefined,
       prePageSizeRef = Undefined,
       depsMemo = None,
       trace = [] \<rparr>"

text \<open>
  One run of the hook body: the options of this render are destructured again, the cells
  and the refs are read (\<^verbatim>\<open>usePrevious\<close> returns \<^verbatim>\<open>ref.current\<close> before its effect of this
  render has run).
\<close>

definition render :: "'e Options option \<Rightarrow> ('a, 'r, 'e) Hook \<Rightarrow> 'a Closure" where
  "render options st =
     \<lparr> defaultPageSize = resolve_defaultPageSize options,
       defaultCurrent = resolve_defaultCurrent options,
       list = listState st,
       loading = loadingState st,
       pageInfo = pageInfoState st,
       prePage = prePageRef st,
       prePageSize = prePageSizeRef st \<rparr>"

subsection \<open>The fetch procedure \<^verbatim>\<open>fetchList\<close> (lines 78-108)\<close>

text \<open>
  An \<^verbatim>\<open>async\<close> function runs up to its \<^verbatim>\<open>await\<close> when it is called and the rest when the
  awaited promise settles, so it is two functions. \<open>fetchList\<close> is lines 79-89: the guard
  on the \<^verbatim>\<open>loading\<close> of the closure, \<^verbatim>\<open>setLoading(true)\<close>, and the call of \<^verbatim>\<open>getData\<close> with the
  \<^verbatim>\<open>page\<close> and \<^verbatim>\<open>pageSize\<close> of the closure. It returns the suspended fetch, or \<open>None\<close> when the
  guard returned.
\<close>

definition fetchList :: "'a Closure \<Rightarrow> bool \<Rightarrow> ('a, 'r, 'e) Hook \<Rightarrow> ('a, 'r, 'e) Hook \<times> 'a pending option" where
  "fetchList c isAppend st =
     (if loading c = Some True then (st, None)
      else (st\<lparr> loadingState := Some True,
                trace := trace st @ [GetData (page (pageInfo c)) (pageSize (pageInfo c))] \<rparr>,
            Some (c, isAppend)))"

text \<open>
  Lines 92-98, the body of \<^verbatim>\<open>if (success !== false)\<close>. The array spread of a missing
  \<^verbatim>\<open>data\<close> throws before any setter is called.
\<close>

definition fetchList_store :: "'a Closure \<Rightarrow> bool \<Rightarrow> 'a list option \<Rightarrow> jsnum \<Rightarrow> ('a, 'r, 'e) Hook \<Rightarrow> 'r error + ('a, 'r, 'e) Hook" where
  "fetchList_store c isAppend d dataTotal st =
     (let setPI = (\<lambda>s. s\<lparr> pageInfoState := (pageInfo c)
                      \<lparr> total := dataTotal,
                        hasMore := js_gt dataTotal (js_mul (pageSize (pageInfo c)) (page (pageInfo c))) \<rparr> \<rparr>)
      in if isAppend \<and> list c \<noteq> None then
           (case d of
              None \<Rightarrow> Inl TypeError
            | Some new \<Rightarrow> Inr (setPI (st\<lparr> listState := Some (the (list c) @ new) \<rparr>)))
         else Inr (setPI (st\<lparr> listState := d \<rparr>)))"

text \<open>
  Lines 86-102, the \<^verbatim>\<open>try\<close> block after the \<^verbatim>\<open>await\<close>. \<open>Inl\<close> is a throw; every throw of the
  block happens before the block has written anything. After the destructuring default
  of line 54 \<^verbatim>\<open>onLoad\<close> is a function for every options object of the declared type, so
  the test of line 100 passes.
\<close>

definition fetchList_try :: "'a Closure \<Rightarrow> bool \<Rightarrow> ('a, 'r) outcome \<Rightarrow> ('a, 'r, 'e) Hook \<Rightarrow> 'r error + ('a, 'r, 'e) Hook" where
  "fetchList_try c isAppend out st =
     (case out of
        Rejected r \<Rightarrow> Inl (Rejection r)
      | Resolved resp \<Rightarrow>
          (let d = (case resp of None \<Rightarrow> None | Some rd \<Rightarrow> data rd);
               succ = (case resp of None \<Rightarrow> None | Some rd \<Rightarrow> success rd);
               dataTotal = (case resp of None \<Rightarrow> Num 0 | Some rd \<Rightarrow> js_default (resp_total rd) (Num 0));
               onLoad = (\<lambda>s. s\<lparr> trace := trace s @ [OnLoad d] \<rparr>)
           in if succ \<noteq> Some False then
                (case fetchList_store c isAppend d dataTotal st of
                   Inl e \<Rightarrow> Inl e
                 | Inr st' \<Rightarrow> Inr (onLoad st'))
              else Inr (onLoad st)))"

text \<open>
  The rest of the function: \<^verbatim>\<open>catch\<close> hands the exception to \<^verbatim>\<open>onRequestError\<close>,
  \<^verbatim>\<open>finally\<close> calls \<^verbatim>\<open>setLoading(false)\<close>, and the promise that the call returned settles.
  \<open>st\<close> is the hook at the time the awaited promise settles.
\<close>

definition fetchList_settle :: "'a pending \<Rightarrow> ('a, 'r) outcome \<Rightarrow> ('a, 'r, 'e) Hook \<Rightarrow> ('a, 'r, 'e) Hook \<times> 'r promise" where
  "fetchList_settle p out st =
     (let caught = (case fetchList_try (fst p) (snd p) out st of
                      Inl e \<Rightarrow> st\<lparr> trace := trace st @ [OnRequestError e] \<rparr>
                    | Inr st' \<Rightarrow> st')
      in (caught\<lparr> loadingState := Some False \<rparr>, Fulfilled))"

text \<open>
  What line 86 reads from a response, for stating what the function writes: the
  \<^verbatim>\<open>data\<close>, the \<^verbatim>\<open>success\<close> and the total with its default, of a response that may be
  falsy.
\<close>

definition response_data :: "'a RequestData option \<Rightarrow> 'a list option" where
  "response_data resp = (case resp of None \<Rightarrow> None | Some rd \<Rightarrow> data rd)"

definition response_success :: "'a RequestData option \<Rightarrow> bool option" where
  "response_success resp = (case resp of None \<Rightarrow> None | Some rd \<Rightarrow> success rd)"

definition response_total :: "'a RequestData option \<Rightarrow> jsnum" where
  "response_total resp = (case resp of None \<Rightarrow> Num 0 | Some rd \<Rightarrow> js_default (resp_total rd) (Num 0))"

subsection \<open>The returned actions (lines 110-115, 149-151, 157-180)\<close>

text \<open>\<^verbatim>\<open>reload: fetchList\<close>, of type \<^verbatim>\<open>() => Promise<void>\<close>: the argument is missing.\<close>

definition reload :: "'a Closure \<Rightarrow> ('a, 'r, 'e) Hook \<Rightarrow> ('a, 'r, 'e) Hook \<times> 'a pending option" where
  "reload c st = fetchList c False st"

definition fetchMore :: "'a Closure \<Rightarrow> ('a, 'r, 'e) Hook \<Rightarrow> ('a, 'r, 'e) Hook" where
  "fetchMore c st =
     (if hasMore (pageInfo c)
      then st\<lparr> pageInfoState := (pageInfo c)\<lparr> page := js_add (page (pageInfo c)) (Num 1) \<rparr> \<rparr>
      else st)"

definition resetPageIndex :: "'a Closure \<Rightarrow> ('a, 'r, 'e) Hook \<Rightarrow> ('a, 'r, 'e) Hook" where
  "resetPageIndex c st = st\<lparr> pageInfoState := (pageInfo c)\<lparr> page := Num 1 \<rparr> \<rparr>"

definition reset :: "'a Closure \<Rightarrow> ('a, 'r, 'e) Hook \<Rightarrow> ('a, 'r, 'e) Hook" where
  "reset c st =
     st\<lparr> pageInfoState :=
           \<lparr> hasMore = False,
             page = js_or (defaultCurrent c) (Num 1),
             pageSize = defaultPageSize c,
             total = Num 0 \<rparr> \<rparr>"

definition setPageInfo :: "'a Closure \<Rightarrow> PartialPageInfo \<Rightarrow> ('a, 'r, 'e) Hook \<Rightarrow> ('a, 'r, 'e) Hook" where
  "setPageInfo c info st = st\<lparr> pageInfoState := spread (pageInfo c) info \<rparr>"

text \<open>The read-only projections of the returned object.\<close>

definition dataSource :: "'a Closure \<Rightarrow> 'a list option" where
  "dataSource c = list c"

definition current :: "'a Closure \<Rightarrow> jsnum" where
  "current c = page (pageInfo c)"

subsection \<open>The effects (lines 120-155)\<close>

text \<open>
  The body of the effect on \<^verbatim>\<open>[pageInfo.page]\<close>, lines 121-134. \<open>Inl TypeError\<close> is the
  exception of \<^verbatim>\<open>list.length\<close> on a list that is \<^verbatim>\<open>undefined\<close>; \<^verbatim>\<open>&&\<close> does not evaluate it
  when \<^verbatim>\<open>page\<close> is \<^verbatim>\<open>undefined\<close>.
\<close>

definition pageChangeEffect :: "'a Closure \<Rightarrow> ('a, 'r, 'e) Hook \<Rightarrow> 'r error + ('a, 'r, 'e) Hook \<times> 'a pending option" where
  "pageChangeEffect c st =
     (if (\<not> truthy (prePage c) \<or> strict_eq (prePage c) (page (pageInfo c))) \<and>
         (\<not> truthy (prePageSize c) \<or> strict_eq (prePageSize c) (pageSize (pageInfo c)))
      then Inr (st, None)
      else if page (pageInfo c) \<noteq> Undefined then
        (case list c of
           None \<Rightarrow> Inl TypeError
         | Some xs \<Rightarrow>
             if js_le (Num (int (length xs))) (pageSize (pageInfo c))
             then Inr (fetchList c False st)
             else Inr (st, None))
      else Inr (st, None))"

text \<open>The body of the effect on \<^verbatim>\<open>[pageInfo.pageSize]\<close>, lines 139-143.\<close>

definition pageSizeChangeEffect :: "'a Closure \<Rightarrow> ('a, 'r, 'e) Hook \<Rightarrow> ('a, 'r, 'e) Hook \<times> 'a pending option" where
  "pageSizeChangeEffect c st =
     (if \<not> truthy (prePageSize c) then (st, None)
      else fetchList c False (st\<lparr> pageInfoState := (pageInfo c)\<lparr> page := Num 1 \<rparr> \<rparr>))"

text \<open>The body of the effect on \<^verbatim>\<open>effects\<close>, line 154.\<close>

definition effectsEffect :: "'a Closure \<Rightarrow> ('a, 'r, 'e) Hook \<Rightarrow> ('a, 'r, 'e) Hook \<times> 'a pending option" where
  "effectsEffect c st = fetchList c False st"

text \<open>
  React compares a dependency array with that of the previous commit position by
  position, over the positions both arrays have.
\<close>

definition depsEqual :: "'e list \<Rightarrow> 'e list \<Rightarrow> bool" where
  "depsEqual prev next = list_all (\<lambda>(a, b). a = b) (zip prev next)"

definition opt_to_list :: "'x option \<Rightarrow> 'x list" where
  "opt_to_list x = (case x of None \<Rightarrow> [] | Some v \<Rightarrow> [v])"

text \<open>
  The effects of one committed render, in the order the body declares them: the two
  \<^verbatim>\<open>usePrevious\<close> effects (no dependency array: every render), then each of the three
  others on the first commit and whenever its dependencies differ from those of the
  previous commit. The result carries the fetches that the effects have started. An
  exception of the page effect ends the run: React unmounts a component whose effect
  throws.
\<close>

definition runEffects :: "'e Options option \<Rightarrow> 'a Closure \<Rightarrow> ('a, 'r, 'e) Hook \<Rightarrow> 'r error + ('a, 'r, 'e) Hook \<times> 'a pending list" where
  "runEffects options c st =
     (let pg = page (pageInfo c);
          ps = pageSize (pageInfo c);
          es = resolve_effects options;
          memo = depsMemo st;
          st1 = st\<lparr> prePageRef := pg, prePageSizeRef := ps, depsMemo := Some (pg, ps, es) \<rparr>;
          r2 = (if (case memo of None \<Rightarrow> True | Some (pg', ps', es') \<Rightarrow> pg' \<noteq> pg)
                then pageChangeEffect c st1 else Inr (st1, None))
      in case r2 of
           Inl e \<Rightarrow> Inl e
         | Inr (st2, f2) \<Rightarrow>
             (let (st3, f3) = (if (case memo of None \<Rightarrow> True | Some (pg', ps', es') \<Rightarrow> ps' \<noteq> ps)
                               then pageSizeChangeEffect c st2 else (st2, None));
                  (st4, f4) = (if (case memo of None \<Rightarrow> True | Some (pg', ps', es') \<Rightarrow> \<not> depsEqual es' es)
                               then effectsEffect c st3 else (st3, None))
              in Inr (st4, opt_to_list f2 @ opt_to_list f3 @ opt_to_list f4)))"

subsection \<open>A mounted hook and what can happen to it\<close>

text \<open>
  A mounted hook is its cells, the options of its last render, the closure of the last
  render (the object the consumer holds) and the fetches that are suspended, oldest
  first. Three things happen to it: the component renders (with the options the consumer
  passes this time) and the effects of that render run; the consumer calls an action of
  the object it holds; the promise of the oldest suspended \<^verbatim>\<open>getData\<close> call settles.
\<close>

record ('a, 'r, 'e) Mounted =
  hook :: "('a, 'r, 'e) Hook"
  props :: "'e Options option"
  held :: "'a Closure option"
  inflight :: "'a pending list"

datatype ('a, 'r, 'e) step =
    Render "'e Options option"
  | CallReload
  | CallFetchMore
  | CallResetPageIndex
  | CallReset
  | CallSetPageInfo PartialPageInfo
  | Settle "('a, 'r) outcome"

definition mount :: "'a list option \<Rightarrow> 'e Options option \<Rightarrow> ('a, 'r, 'e) Mounted" where
  "mount defaultData options =
     \<lparr> hook = useFetchData_init defaultData options, props = options, held = None, inflight = [] \<rparr>"

text \<open>
  A render with the options of the last one, and its effects: what a state setter
  causes. React defers the effects of a render, at the latest until the next render is
  about to start; here they run right after their render. The two orders differ only
  when such an effect writes a cell that the code running between the two renders
  writes too.
\<close>

definition rerender :: "('a, 'r, 'e) Mounted \<Rightarrow> 'r error + ('a, 'r, 'e) Mounted" where
  "rerender m =
     (let c = render (props m) (hook m)
      in case runEffects (props m) c (hook m) of
           Inl e \<Rightarrow> Inl e
         | Inr (st, fs) \<Rightarrow> Inr (m\<lparr> hook := st, held := Some c, inflight := inflight m @ fs \<rparr>))"

text \<open>
  The second half of \<^verbatim>\<open>fetchList\<close> as the list of its writes, cut after every state setter:
  \<^verbatim>\<open>setList\<close>, \<^verbatim>\<open>setPageInfo\<close>, and \<^verbatim>\<open>setLoading(false)\<close> with the callback that precedes it. Run
  one after the other they are \<open>fetchList_settle\<close> (lemma \<open>settle_writes_fold\<close> below).
\<close>

definition settle_writes :: "'a pending \<Rightarrow> ('a, 'r) outcome \<Rightarrow> (('a, 'r, 'e) Hook \<Rightarrow> ('a, 'r, 'e) Hook) list" where
  "settle_writes p out =
     (let c = fst p;
          isAppend = snd p;
          failed = (\<lambda>e. [\<lambda>s. s\<lparr> trace := trace s @ [OnRequestError e], loadingState := Some False \<rparr>])
      in case out of
           Rejected r \<Rightarrow> failed (Rejection r)
         | Resolved resp \<Rightarrow>
             (let d = (case resp of None \<Rightarrow> None | Some rd \<Rightarrow> data rd);
                  succ = (case resp of None \<Rightarrow> None | Some rd \<Rightarrow> success rd);
                  dataTotal = (case resp of None \<Rightarrow> Num 0 | Some rd \<Rightarrow> js_default (resp_total rd) (Num 0));
                  setPI = (\<lambda>s. s\<lparr> pageInfoState := (pageInfo c)
                             \<lparr> total := dataTotal,
                               hasMore := js_gt dataTotal (js_mul (pageSize (pageInfo c)) (page (pageInfo c))) \<rparr> \<rparr>);
                  done = (\<lambda>s. s\<lparr> trace := trace s @ [OnLoad d], loadingState := Some False \<rparr>)
              in if succ \<noteq> Some False then
                   (if isAppend \<and> list c \<noteq> None then
                      (case d of
                         None \<Rightarrow> failed TypeError
                       | Some new \<Rightarrow> [\<lambda>s. s\<lparr> listState := Some (the (list c) @ new) \<rparr>, setPI, done])
                    else [\<lambda>s. s\<lparr> listState := d \<rparr>, setPI, done])
                 else [done]))"

text \<open>
  After an \<^verbatim>\<open>await\<close> the hook is outside React's event handlers, and React 16 (the peer
  dependency of the package) renders at once after each state setter called there.
\<close>

fun write_and_render :: "('a, 'r, 'e) Mounted \<Rightarrow> (('a, 'r, 'e) Hook \<Rightarrow> ('a, 'r, 'e) Hook) list \<Rightarrow> 'r error + ('a, 'r, 'e) Mounted" where
  "write_and_render m [] = Inr m"
| "write_and_render m (w # ws) =
     (case rerender (m\<lparr> hook := w (hook m) \<rparr>) of
        Inl e \<Rightarrow> Inl e
      | Inr m' \<Rightarrow> write_and_render m' ws)"

text \<open>
  A call of the consumer is followed by no render of its own: the consumer may call
  again before React renders, and the \<open>Render\<close> that follows stands for React's.
\<close>

fun do_step :: "('a, 'r, 'e) Mounted \<Rightarrow> ('a, 'r, 'e) step \<Rightarrow> 'r error + ('a, 'r, 'e) Mounted" where
  "do_step m (Render options) = rerender (m\<lparr> props := options \<rparr>)"
| "do_step m CallReload =
     (case held m of
        None \<Rightarrow> Inr m
      | Some c \<Rightarrow> (let (st, f) = reload c (hook m)
                   in Inr (m\<lparr> hook := st, inflight := inflight m @ opt_to_list f \<rparr>)))"
| "do_step m CallFetchMore =
     (case held m of None \<Rightarrow> Inr m | Some c \<Rightarrow> Inr (m\<lparr> hook := fetchMore c (hook m) \<rparr>))"
| "do_step m CallResetPageIndex =
     (case held m of None \<Rightarrow> Inr m | Some c \<Rightarrow> Inr (m\<lparr> hook := resetPageIndex c (hook m) \<rparr>))"
| "do_step m CallReset =
     (case held m of None \<Rightarrow> Inr m | Some c \<Rightarrow> Inr (m\<lparr> hook := reset c (hook m) \<rparr>))"
| "do_step m (CallSetPageInfo info) =
     (case held m of None \<Rightarrow> Inr m | Some c \<Rightarrow> Inr (m\<lparr> hook := setPageInfo c info (hook m) \<rparr>))"
| "do_step m (Settle out) =
     (case inflight m of
        [] \<Rightarrow> Inr m
      | p # ps \<Rightarrow> write_and_render (m\<lparr> inflight := ps \<rparr>) (settle_writes p out))"

fun run :: "('a, 'r, 'e) Mounted \<Rightarrow> ('a, 'r, 'e) step list \<Rightarrow> 'r error + ('a, 'r, 'e) Mounted" where
  "run m [] = Inr m"
| "run m (s # ss) = (case do_step m s of Inl e \<Rightarrow> Inl e | Inr m' \<Rightarrow> run m' ss)"

text \<open>The number of calls of \<^verbatim>\<open>getData\<close> in a trace.\<close>

fun getData_calls :: "('a, 'r) event list \<Rightarrow> nat" where
  "getData_calls [] = 0"
| "getData_calls (GetData cur ps # evs) = Suc (getData_calls evs)"
| "getData_calls (_ # evs) = getData_calls evs"

text \<open>A response with \<^verbatim>\<open>data\<close> and \<^verbatim>\<open>total\<close> and no \<^verbatim>\<open>success\<close> field.\<close>

definition respond :: "'a list \<Rightarrow> int \<Rightarrow> ('a, 'r) outcome" where
  "respond xs n = Resolved (Some \<lparr> data = Some xs, success = None, resp_total = Num n \<rparr>)"

text \<open>What a run shows at its end; \<open>None\<close> when an effect threw.\<close>

definition observe :: "(('a, 'r, 'e) Mounted \<Rightarrow> 'x) \<Rightarrow> 'r error + ('a, 'r, 'e) Mounted \<Rightarrow> 'x option" where
  "observe f r = (case r of Inl e \<Rightarrow> None | Inr m \<Rightarrow> Some (f m))"

text \<open>Line 98: the value that a successful fetch computes for \<^verbatim>\<open>hasMore\<close>, on a \<^verbatim>\<open>PageInfo\<close>.\<close>

definition derived_hasMore :: "PageInfo \<Rightarrow> bool" where
  "derived_hasMore p = js_gt (total p) (js_mul (pageSize p) (page p))"

subsection \<open>Concrete hooks and runs\<close>

text \<open>
  A hook at rest that holds the list \<open>xs\<close> and the \<^verbatim>\<open>PageInfo\<close> \<open>p\<close>: its last fetch has ended
  and its last commit saw the same \<^verbatim>\<open>page\<close> and \<^verbatim>\<open>pageSize\<close>.
\<close>

definition hook_at_rest :: "int list \<Rightarrow> PageInfo \<Rightarrow> (int, unit, unit) Hook" where
  "hook_at_rest xs p =
     \<lparr> listState = Some xs, loadingState = Some False, pageInfoState = p,
       prePageRef = page p, prePageSizeRef = pageSize p,
       depsMemo = Some (page p, pageSize p, []), trace = [] \<rparr>"

definition page_info :: "bool \<Rightarrow> int \<Rightarrow> int \<Rightarrow> int \<Rightarrow> PageInfo" where
  "page_info hm pg ps tot = \<lparr> hasMore = hm, page = Num pg, pageSize = Num ps, total = Num tot \<rparr>"

text \<open>A partial \<^verbatim>\<open>PageInfo\<close> that names no field, \<^verbatim>\<open>{}\<close>.\<close>

definition no_fields :: PartialPageInfo where
  "no_fields = \<lparr> hasMore_given = None, page_given = None, pageSize_given = None, total_given = None \<rparr>"

text \<open>\<^verbatim>\<open>{defaultPageSize: 2}\<close>, \<^verbatim>\<open>{defaultPageSize: 50}\<close> and \<^verbatim>\<open>{defaultCurrent: 3}\<close>.\<close>

definition opts_pageSize2 :: "unit Options option" where
  "opts_pageSize2 = Some \<lparr> opt_defaultCurrent = Undefined, opt_defaultPageSize = Num 2, opt_effects = None \<rparr>"

definition opts_pageSize50 :: "unit Options option" where
  "opts_pageSize50 = Some \<lparr> opt_defaultCurrent = Undefined, opt_defaultPageSize = Num 50, opt_effects = None \<rparr>"

definition opts_current3 :: "unit Options option" where
  "opts_current3 = Some \<lparr> opt_defaultCurrent = Num 3, opt_defaultPageSize = Undefined, opt_effects = None \<rparr>"

text \<open>
  First load of the page \<^verbatim>\<open>[1,2]\<close> of four records at page size 2, a render, then
  \<^verbatim>\<open>reload(); reload();\<close> on the object of that render.
\<close>

definition reload_twice :: "unit error + (int, unit, unit) Mounted" where
  "reload_twice =
     run (mount None opts_pageSize2)
       [Render opts_pageSize2, Settle (respond [1, 2] 4), Render opts_pageSize2,
        CallReload, CallReload]"

text \<open>
  The same first load, then \<^verbatim>\<open>fetchMore()\<close>; the data source answers the request for
  page 2 with \<^verbatim>\<open>[3,4]\<close>.
\<close>

definition load_then_fetchMore :: "unit error + (int, unit, unit) Mounted" where
  "load_then_fetchMore =
     run (mount None opts_pageSize2)
       [Render opts_pageSize2, Settle (respond [1, 2] 4), Render opts_pageSize2,
        CallFetchMore, Render opts_pageSize2, Settle (respond [3, 4] 4), Render opts_pageSize2]"

text \<open>
  A hook that holds \<^verbatim>\<open>[1,2]\<close>; its first fetch is answered with
  \<^verbatim>\<open>{success: false, data: [99]}\<close>.
\<close>

definition load_unsuccessful :: "unit error + (int, unit, unit) Mounted" where
  "load_unsuccessful =
     run (mount (Some [1, 2]) None)
       [Render None,
        Settle (Resolved (Some \<lparr> data = Some [99], success = Some False, resp_total = Undefined \<rparr>)),
        Render None]"

text \<open>\<^verbatim>\<open>setPageInfo({hasMore: true})\<close> on the object of the first render.\<close>

definition forced_hasMore :: "unit error + (int, unit, unit) Mounted" where
  "forced_hasMore =
     run (mount None None)
       [Render None, CallSetPageInfo (no_fields\<lparr> hasMore_given := Some True \<rparr>)]"

text \<open>
  A hook at page 3 with its first load done; then \<^verbatim>\<open>setPageInfo({pageSize: 50})\<close> and the
  render that runs the reaction to it.
\<close>

definition pageSize_changed :: "unit error + (int, unit, unit) Mounted" where
  "pageSize_changed =
     run (mount None opts_current3)
       [Render opts_current3, Settle (respond [5, 6] 100), Render opts_current3,
        CallSetPageInfo (no_fields\<lparr> pageSize_given := Some (Num 50) \<rparr>), Render opts_current3]"

text \<open>
  The same run continued until nothing is left to happen: the render after the
  reaction's \<^verbatim>\<open>setPageInfo\<close>, and the answer to the reaction's request with the renders
  that its writes cause.
\<close>

definition pageSize_changed_settled :: "unit error + (int, unit, unit) Mounted" where
  "pageSize_changed_settled =
     run (mount None opts_current3)
       [Render opts_current3, Settle (respond [5, 6] 100), Render opts_current3,
        CallSetPageInfo (no_fields\<lparr> pageSize_given := Some (Num 50) \<rparr>), Render opts_current3,
        Render opts_current3, Settle (respond [7, 8] 100)]"

text \<open>
  A hook constructed with the default page size; a later render passes
  \<^verbatim>\<open>{defaultPageSize: 50}\<close>, and \<^verbatim>\<open>reset()\<close> is called on the object of that render.
\<close>

definition reset_after_new_options :: "unit error + (int, unit, unit) Mounted" where
  "reset_after_new_options =
     run (mount None None)
       [Render None, Settle (respond [1, 2] 4), Render opts_pageSize50, CallReset]"

text \<open>
  A hook constructed without \<^verbatim>\<open>defaultData\<close>; \<^verbatim>\<open>setPageInfo({page: 2})\<close> before the first
  fetch has been answered, and the render after it.
\<close>

definition page_change_before_load :: "unit error + (int, unit, unit) Mounted" where
  "page_change_before_load =
     run (mount None None)
       [Render None, CallSetPageInfo (no_fields\<lparr> page_given := Some (Num 2) \<rparr>), Render None]"

text \<open>
  A first load that reports 100 records, then \<^verbatim>\<open>setPageInfo({page: 3})\<close> and
  \<^verbatim>\<open>setPageInfo({pageSize: 50})\<close> on the object of one render.
\<close>

definition setPageInfo_twice :: "unit error + (int, unit, unit) Mounted" where
  "setPageInfo_twice =
     run (mount None None)
       [Render None, Settle (respond [1, 2] 100),
        CallSetPageInfo (no_fields\<lparr> page_given := Some (Num 3) \<rparr>),
        CallSetPageInfo (no_fields\<lparr> pageSize_given := Some (Num 50) \<rparr>)]"

text \<open>
  The page, page size and total at which \<^verbatim>\<open>pageSize * page\<close> is rounded: the exact product
  is \<open>9007199254740995\<close>, the double is \<open>9007199254740996\<close>.
\<close>

definition rounded_page_info :: PageInfo where
  "rounded_page_info = page_info False 1801439850948199 5 0"

text \<open>
  The hook constructed without \<^verbatim>\<open>defaultData\<close> and without options after its first commit:
  the first fetch is pending, nothing has been loaded.
\<close>

definition hook_unloaded :: "(int, unit, unit) Hook" where
  "hook_unloaded =
     \<lparr> listState = None, loadingState = Some True, pageInfoState = page_info False 1 20 0,
       prePageRef = Num 1, prePageSizeRef = Num 20,
       depsMemo = Some (Num 1, Num 20, []), trace = [GetData (Num 1) (Num 20)] \<rparr>"

section \<open>Properties\<close>

subsection \<open>Unfolding sets\<close>

declare expo.simps [simp del]

lemma expo_safe: "n < 9007199254740992 \<Longrightarrow> expo n = 0"
  by (subst expo.simps) simp

lemma round_nat_safe: "n < 9007199254740992 \<Longrightarrow> round_nat n = n"
  by (simp add: round_nat_def expo_safe)

text \<open>Below \<open>2 ^ 53\<close> the arithmetic is exact.\<close>

lemma to_double_safe: "\<bar>n\<bar> < 9007199254740992 \<Longrightarrow> to_double n = Num n"
  by (simp add: to_double_def round_nat_safe Let_def)

text \<open>Above, it rounds: \<^verbatim>\<open>2 ** 53 + 1\<close> and \<^verbatim>\<open>5 * 1801439850948199\<close>.\<close>

lemma double_rounding:
  "js_add (Num 9007199254740992) (Num 1) = Num 9007199254740992"
  "js_mul (Num 5) (Num 1801439850948199) = Num 9007199254740996"
  by (simp_all add: to_double_def round_nat_def Let_def expo.simps)

lemmas fetch_defs =
  fetchList_def fetchList_settle_def fetchList_try_def fetchList_store_def js_default_def

lemmas action_defs =
  reload_def fetchMore_def resetPageIndex_def reset_def setPageInfo_def spread_def

lemmas effect_defs =
  pageChangeEffect_def pageSizeChangeEffect_def effectsEffect_def runEffects_def
  depsEqual_def opt_to_list_def

lemmas run_defs =
  mount_def useFetchData_init_def render_def resolve_defaultCurrent_def
  resolve_defaultPageSize_def resolve_effects_def js_or_def respond_def observe_def
  no_fields_def opts_pageSize2_def opts_pageSize50_def opts_current3_def Let_def
  hook_at_rest_def page_info_def derived_hasMore_def hook_unloaded_def
  rerender_def settle_writes_def to_double_safe rounded_page_info_def
  response_data_def response_success_def response_total_def

lemmas all_defs = fetch_defs action_defs effect_defs run_defs

lemma fetchList_guard: "loading c = Some True \<Longrightarrow> fetchList c isAppend st = (st, None)"
  by (simp add: fetchList_def)

lemma fetchList_starts:
  "loading c \<noteq> Some True \<Longrightarrow>
     fetchList c isAppend st =
       (st\<lparr> loadingState := Some True,
            trace := trace st @ [GetData (page (pageInfo c)) (pageSize (pageInfo c))] \<rparr>,
        Some (c, isAppend))"
  by (simp add: fetchList_def)


text \<open>The writes of \<open>settle_writes\<close>, run with no render between them, are \<open>fetchList_settle\<close>.\<close>

lemma settle_writes_fold:
  "fold (\<lambda>w s. w s) (settle_writes p out) st = fst (fetchList_settle p out st)"
  by (cases p)
     (auto simp: settle_writes_def fetchList_settle_def fetchList_try_def fetchList_store_def Let_def
           split: outcome.splits option.splits)

lemma first_commit_unloaded:
  "observe hook (run (mount None None) [Render None]) = Some hook_unloaded"
  by (simp add: all_defs)

text \<open>
  The fetch that the \<^verbatim>\<open>pageSize\<close> effect starts runs in the closure of the effect: when it
  resolves with \<^verbatim>\<open>success !== false\<close>, the page it writes is the page of that closure,
  whatever the hook holds by then.
\<close>

lemma pageSize_fetch_restores_page:
  assumes "pageSizeChangeEffect c st = (st', Some p)" and "succ \<noteq> Some False"
  shows "page (pageInfoState (fst (fetchList_settle p
           (Resolved (Some \<lparr> data = Some d, success = succ, resp_total = t \<rparr>)) st2))) = page (pageInfo c)"
  using assms by (auto simp: pageSizeChangeEffect_def fetch_defs Let_def split: if_splits)

subsection \<open>One fetch at a time\<close>

text \<open>
  Claim C1: at most one fetch is in flight; a \<^verbatim>\<open>reload()\<close> while a fetch is pending is a
  no-op, so two \<^verbatim>\<open>reload()\<close> calls in immediate succession call \<^verbatim>\<open>getData\<close> once.
  The guard of line 79 reads the \<^verbatim>\<open>loading\<close> constant of the render that created the
  function (\<open>fetchList_guard\<close>), and \<^verbatim>\<open>setLoading(true)\<close> does not change that constant
  (\<open>fetchList_starts\<close> holds for every state of the cells). In the run \<open>reload_twice\<close>
  the first load has ended, and \<^verbatim>\<open>reload\<close> is called twice on the object of one render:
  both calls pass the guard, \<^verbatim>\<open>getData\<close> is called for each of them (three calls with the
  first load), and two fetches are suspended together.
\<close>

theorem reload_twice_two_requests:
  "observe (trace \<circ> hook) reload_twice =
     Some [GetData (Num 1) (Num 2), OnLoad (Some [1, 2]), GetData (Num 1) (Num 2), GetData (Num 1) (Num 2)] \<and>
   observe (getData_calls \<circ> trace \<circ> hook) reload_twice = Some 3 \<and>
   observe (length \<circ> inflight) reload_twice = Some 2"
  by (simp add: reload_twice_def all_defs)

subsection \<open>\<^verbatim>\<open>fetchMore\<close> and the mode of the fetch that follows\<close>

text \<open>
  Claim C2, as the code has it: \<^verbatim>\<open>fetchMore()\<close> changes nothing when the \<^verbatim>\<open>hasMore\<close> of its
  render is false; otherwise it writes the \<^verbatim>\<open>PageInfo\<close> of its render with \<^verbatim>\<open>page + 1\<close>.
  Called on the object of the latest render, that is the current \<^verbatim>\<open>PageInfo\<close> with the
  page one higher, exactly, as long as the new page is below \<open>2 ^ 53\<close>. A fetch started by
  the page effect calls \<^verbatim>\<open>getData\<close> and has no \<^verbatim>\<open>isAppend\<close> argument, like one started by
  \<^verbatim>\<open>reload()\<close>; a fetch without it that resolves with \<^verbatim>\<open>success !== false\<close> leaves exactly
  the \<^verbatim>\<open>data\<close> of the response in the list: the page effect replaces, it does not append.
\<close>

theorem fetchMore_advances_and_page_fetch_replaces:
  "(\<not> hasMore (pageInfo c) \<longrightarrow> fetchMore c st = st) \<and>
   (hasMore (pageInfo c) \<longrightarrow>
      fetchMore c st = st\<lparr> pageInfoState := (pageInfo c)\<lparr> page := js_add (page (pageInfo c)) (Num 1) \<rparr> \<rparr>) \<and>
   (hasMore (pageInfoState st) \<and> page (pageInfoState st) = Num n \<and> \<bar>n + 1\<bar> < 9007199254740992 \<longrightarrow>
      fetchMore (render options st) st = st\<lparr> pageInfoState := (pageInfoState st)\<lparr> page := Num (n + 1) \<rparr> \<rparr>) \<and>
   (pageChangeEffect c st = Inr (st', Some p) \<longrightarrow>
      p = (c, False) \<and>
      trace st' = trace st @ [GetData (page (pageInfo c)) (pageSize (pageInfo c))]) \<and>
   (reload c st = (st', Some p) \<longrightarrow>
      p = (c, False) \<and>
      trace st' = trace st @ [GetData (page (pageInfo c)) (pageSize (pageInfo c))]) \<and>
   (response_success resp \<noteq> Some False \<longrightarrow>
      listState (fst (fetchList_settle (c', False) (Resolved resp) st2)) = response_data resp)"
proof -
  have "to_double (n + 1) = Num (n + 1)" if "\<bar>n + 1\<bar> < 9007199254740992"
    using that by (rule to_double_safe)
  then show ?thesis
    by (auto simp: fetchMore_def reload_def render_def pageChangeEffect_def fetch_defs Let_def
          response_success_def response_data_def
        split: if_splits option.splits)
qed

text \<open>
  The theorem at a hook that holds \<^verbatim>\<open>[1,2]\<close> of four records at page size 2 (and at one on
  the last page): \<^verbatim>\<open>fetchMore\<close> moves to page 2, the page effect of the next render calls
  \<^verbatim>\<open>getData\<close> for page 2 without \<^verbatim>\<open>isAppend\<close>, and the answer \<^verbatim>\<open>[3,4]\<close> becomes the list.
\<close>

theorem fetchMore_advances_and_page_fetch_replaces_witness:
  "fetchMore (render None (hook_at_rest [3, 4] (page_info False 2 2 4))) (hook_at_rest [3, 4] (page_info False 2 2 4))
     = hook_at_rest [3, 4] (page_info False 2 2 4) \<and>
   pageInfoState (fetchMore (render None (hook_at_rest [1, 2] (page_info True 1 2 4)))
     (hook_at_rest [1, 2] (page_info True 1 2 4))) = page_info True 2 2 4 \<and>
   pageChangeEffect
     (render None (fetchMore (render None (hook_at_rest [1, 2] (page_info True 1 2 4)))
       (hook_at_rest [1, 2] (page_info True 1 2 4))))
     (fetchMore (render None (hook_at_rest [1, 2] (page_info True 1 2 4)))
       (hook_at_rest [1, 2] (page_info True 1 2 4)))
     = Inr ((hook_at_rest [1, 2] (page_info True 2 2 4))
              \<lparr> prePageRef := Num 1, depsMemo := Some (Num 1, Num 2, []),
                loadingState := Some True, trace := [GetData (Num 2) (Num 2)] \<rparr>,
            Some (render None (fetchMore (render None (hook_at_rest [1, 2] (page_info True 1 2 4)))
              (hook_at_rest [1, 2] (page_info True 1 2 4))), False)) \<and>
   listState (fst (fetchList_settle
       (render None (fetchMore (render None (hook_at_rest [1, 2] (page_info True 1 2 4)))
         (hook_at_rest [1, 2] (page_info True 1 2 4))), False)
       (respond [3, 4] 4)
       (fetchMore (render None (hook_at_rest [1, 2] (page_info True 1 2 4)))
         (hook_at_rest [1, 2] (page_info True 1 2 4))))) = Some [3, 4]"
proof -
  let ?h0 = "hook_at_rest [3, 4] (page_info False 2 2 4)"
  let ?h1 = "hook_at_rest [1, 2] (page_info True 1 2 4)"
  let ?c1 = "render None ?h1 :: int Closure"
  let ?h2 = "fetchMore ?c1 ?h1"
  let ?c2 = "render None ?h2 :: int Closure"
  let ?h3 = "(hook_at_rest [1, 2] (page_info True 2 2 4))
              \<lparr> prePageRef := Num 1, depsMemo := Some (Num 1, Num 2, []),
                loadingState := Some True, trace := [GetData (Num 2) (Num 2)] \<rparr>"
  let ?resp = "Some \<lparr> data = Some [3, 4], success = None, resp_total = Num 4 \<rparr> :: int RequestData option"
  have more: "hasMore (pageInfoState ?h1) \<and> page (pageInfoState ?h1) = Num 1 \<and> \<bar>(1::int) + 1\<bar> < 9007199254740992"
    and nomore: "\<not> hasMore (pageInfo (render None ?h0 :: int Closure))"
    by (simp_all add: run_defs)
  have eff: "pageChangeEffect ?c2 ?h2 = Inr (?h3, Some (?c2, False))"
    by (simp add: run_defs fetchMore_def pageChangeEffect_def fetchList_def)
  have ok: "response_success ?resp \<noteq> Some False"
    by (simp add: response_success_def)
  note a = fetchMore_advances_and_page_fetch_replaces [where c = "render None ?h0" and st = ?h0]
  note b = fetchMore_advances_and_page_fetch_replaces
    [where st = ?h1 and n = 1 and options = None and resp = ?resp and c' = ?c2 and ?st2.0 = ?h2]
  note e = fetchMore_advances_and_page_fetch_replaces
    [where c = ?c2 and st = ?h2 and st' = ?h3 and p = "(?c2, False)"]
  from a nomore have 1: "fetchMore (render None ?h0) ?h0 = ?h0" by blast
  from b more have 2: "pageInfoState ?h2 = page_info True 2 2 4"
    by (simp add: run_defs)
  from b ok have 4: "listState (fst (fetchList_settle (?c2, False) (respond [3, 4] 4) ?h2)) = Some [3, 4]"
    by (simp add: respond_def response_data_def)
  from e eff have 3: "pageChangeEffect ?c2 ?h2 = Inr (?h3, Some (?c2, False))"
    by blast
  from 1 2 3 4 show ?thesis by blast
qed

text \<open>
  The claim as written expects \<^verbatim>\<open>[1,2,3,4]\<close> after \<^verbatim>\<open>fetchMore()\<close>; the run
  \<open>load_then_fetchMore\<close> ends with \<^verbatim>\<open>[3,4]\<close>.
\<close>

theorem fetchMore_scenario_replaces:
  "observe (listState \<circ> hook) load_then_fetchMore = Some (Some [3, 4]) \<and>
   observe (listState \<circ> hook) load_then_fetchMore \<noteq> Some (Some [1, 2, 3, 4])"
  by (simp add: load_then_fetchMore_def all_defs)

subsection \<open>A response with \<^verbatim>\<open>success: false\<close>\<close>

text \<open>
  Claim C3, as the code has it: when the response has \<^verbatim>\<open>success === false\<close>, the rest of
  \<^verbatim>\<open>fetchList\<close> calls \<^verbatim>\<open>onLoad\<close> with the \<^verbatim>\<open>data\<close> of the response (line 101 is outside the
  test of line 91), sets \<^verbatim>\<open>loading\<close> to false and fulfils the promise, and writes nothing
  else; the first half of \<^verbatim>\<open>fetchList\<close> writes neither the list nor the \<^verbatim>\<open>PageInfo\<close>.
\<close>

theorem unsuccessful_fetch_keeps_data:
  "fetchList_settle p (Resolved (Some \<lparr> data = d, success = Some False, resp_total = t \<rparr>)) st =
     (st\<lparr> trace := trace st @ [OnLoad d], loadingState := Some False \<rparr>, Fulfilled) \<and>
   listState (fst (fetchList_settle p
     (Resolved (Some \<lparr> data = d, success = Some False, resp_total = t \<rparr>)) st)) = listState st \<and>
   pageInfoState (fst (fetchList_settle p
     (Resolved (Some \<lparr> data = d, success = Some False, resp_total = t \<rparr>)) st)) = pageInfoState st \<and>
   loadingState (fst (fetchList_settle p
     (Resolved (Some \<lparr> data = d, success = Some False, resp_total = t \<rparr>)) st)) = Some False \<and>
   listState (fst (fetchList c isAppend st0)) = listState st0 \<and>
   pageInfoState (fst (fetchList c isAppend st0)) = pageInfoState st0"
  by (simp add: fetch_defs Let_def)

text \<open>
  The claim as written has \<^verbatim>\<open>onLoad\<close> not called; in the run \<open>load_unsuccessful\<close> the
  response \<^verbatim>\<open>{success: false, data: [99]}\<close> is followed by \<^verbatim>\<open>onLoad([99])\<close>.
\<close>

theorem unsuccessful_fetch_calls_onLoad:
  "observe (trace \<circ> hook) load_unsuccessful = Some [GetData (Num 1) (Num 20), OnLoad (Some [99])]"
  by (simp add: load_unsuccessful_def all_defs)

subsection \<open>A data source that rejects\<close>

text \<open>
  Claim C4: when a \<^verbatim>\<open>reload()\<close> has called \<^verbatim>\<open>getData\<close> and the promise of \<^verbatim>\<open>getData\<close> rejects
  with reason \<open>r\<close>, the promise of \<^verbatim>\<open>reload()\<close> is fulfilled, \<^verbatim>\<open>onRequestError\<close> is called
  once, with \<open>r\<close>, \<^verbatim>\<open>loading\<close> becomes false, and the list and the \<^verbatim>\<open>PageInfo\<close> are
  those of the moment before (\<open>st2\<close> is the hook when the rejection arrives, whatever
  has happened to it since the call). The call itself only sets \<^verbatim>\<open>loading\<close> and calls
  \<^verbatim>\<open>getData\<close>.
\<close>

theorem reload_rejected_resolves:
  assumes "reload c st = (st1, Some p)" and "fetchList_settle p (Rejected r) st2 = (st3, res)"
  shows "res = Fulfilled \<and>
         trace st3 = trace st2 @ [OnRequestError (Rejection r)] \<and>
         loadingState st3 = Some False \<and>
         listState st3 = listState st2 \<and> pageInfoState st3 = pageInfoState st2 \<and>
         trace st1 = trace st @ [GetData (page (pageInfo c)) (pageSize (pageInfo c))] \<and>
         listState st1 = listState st \<and> pageInfoState st1 = pageInfoState st"
  using assms by (auto simp: reload_def fetch_defs split: if_splits)

theorem reload_rejected_resolves_witness:
  "snd (fetchList_settle (render None (hook_at_rest [1, 2] (page_info False 1 20 2)), False) (Rejected ())
      (fst (reload (render None (hook_at_rest [1, 2] (page_info False 1 20 2)))
         (hook_at_rest [1, 2] (page_info False 1 20 2))))) = Fulfilled \<and>
   trace (fst (fetchList_settle (render None (hook_at_rest [1, 2] (page_info False 1 20 2)), False) (Rejected ())
      (fst (reload (render None (hook_at_rest [1, 2] (page_info False 1 20 2)))
         (hook_at_rest [1, 2] (page_info False 1 20 2))))))
     = [GetData (Num 1) (Num 20), OnRequestError (Rejection ())] \<and>
   listState (fst (fetchList_settle (render None (hook_at_rest [1, 2] (page_info False 1 20 2)), False) (Rejected ())
      (fst (reload (render None (hook_at_rest [1, 2] (page_info False 1 20 2)))
         (hook_at_rest [1, 2] (page_info False 1 20 2)))))) = Some [1, 2]"
proof -
  let ?h = "hook_at_rest [1, 2] (page_info False 1 20 2)"
  let ?c = "render None ?h :: int Closure"
  let ?h1 = "fst (reload ?c ?h)"
  let ?r = "fetchList_settle (?c, False) (Rejected ()) ?h1"
  have started: "reload ?c ?h = (?h1, Some (?c, False))"
    by (simp add: reload_def fetchList_def run_defs)
  have settled: "?r = (fst ?r, snd ?r)" by simp
  have tr: "trace ?h1 = [GetData (Num 1) (Num 20)]" and ls: "listState ?h1 = Some [1, 2]"
    by (simp_all add: reload_def fetchList_def run_defs)
  from reload_rejected_resolves [OF started settled] tr ls show ?thesis by simp
qed

subsection \<open>Where \<^verbatim>\<open>hasMore\<close> comes from\<close>

text \<open>
  Claim C5, as the code has it: a fetch that resolves with \<^verbatim>\<open>success !== false\<close> writes the
  \<^verbatim>\<open>PageInfo\<close> of the render that started it with \<^verbatim>\<open>total\<close> the reported total (0 when the
  response reports none or is falsy) and \<^verbatim>\<open>hasMore\<close> the value of
  \<^verbatim>\<open>total > pageSize * page\<close> on these, in the arithmetic of doubles; the one exception is a
  fetch in append mode with a list and a response without \<^verbatim>\<open>data\<close>, which throws before
  it writes. That fetch, a response with \<^verbatim>\<open>success === false\<close>, a rejection, the start of a
  fetch and the page effect leave the \<^verbatim>\<open>PageInfo\<close> alone. \<^verbatim>\<open>reset\<close> writes
  \<^verbatim>\<open>hasMore = false\<close>; \<^verbatim>\<open>resetPageIndex\<close>, \<^verbatim>\<open>fetchMore\<close> and the \<^verbatim>\<open>pageSize\<close> effect carry the
  \<^verbatim>\<open>hasMore\<close> of their render over. \<^verbatim>\<open>setPageInfo\<close> carries it over when the partial does
  not name it, and writes the given value when it does, whatever \<^verbatim>\<open>total\<close>, \<^verbatim>\<open>pageSize\<close>
  and \<^verbatim>\<open>page\<close> are.
\<close>

theorem hasMore_recomputed_or_given:
  "(response_success resp \<noteq> Some False \<and>
    \<not> (isAppend \<and> list c \<noteq> None \<and> response_data resp = None) \<longrightarrow>
      pageInfoState (fst (fetchList_settle (c, isAppend) (Resolved resp) st)) =
        (pageInfo c)\<lparr> total := response_total resp,
                      hasMore := js_gt (response_total resp)
                                   (js_mul (pageSize (pageInfo c)) (page (pageInfo c))) \<rparr> \<and>
      hasMore (pageInfoState (fst (fetchList_settle (c, isAppend) (Resolved resp) st))) =
        derived_hasMore (pageInfoState (fst (fetchList_settle (c, isAppend) (Resolved resp) st)))) \<and>
   (response_success resp \<noteq> Some False \<and> isAppend \<and> list c \<noteq> None \<and> response_data resp = None \<longrightarrow>
      pageInfoState (fst (fetchList_settle (c, isAppend) (Resolved resp) st)) = pageInfoState st) \<and>
   (response_success resp = Some False \<longrightarrow>
      pageInfoState (fst (fetchList_settle (c, isAppend) (Resolved resp) st)) = pageInfoState st) \<and>
   pageInfoState (fst (fetchList_settle (c, isAppend) (Rejected r) st)) = pageInfoState st \<and>
   pageInfoState (fst (fetchList c isAppend st)) = pageInfoState st \<and>
   (pageChangeEffect c st = Inr (st', f) \<longrightarrow> pageInfoState st' = pageInfoState st) \<and>
   hasMore (pageInfoState (fst (pageSizeChangeEffect c st))) =
     (if truthy (prePageSize c) then hasMore (pageInfo c) else hasMore (pageInfoState st)) \<and>
   hasMore (pageInfoState (reset c st)) = False \<and>
   hasMore (pageInfoState (resetPageIndex c st)) = hasMore (pageInfo c) \<and>
   (hasMore (pageInfo c) \<longrightarrow> hasMore (pageInfoState (fetchMore c st)) = True) \<and>
   (\<not> hasMore (pageInfo c) \<longrightarrow> fetchMore c st = st) \<and>
   (hasMore_given info = None \<longrightarrow> hasMore (pageInfoState (setPageInfo c info st)) = hasMore (pageInfo c)) \<and>
   (hasMore_given info = Some b \<longrightarrow> hasMore (pageInfoState (setPageInfo c info st)) = b)"
  by (auto simp: fetchList_def fetchList_settle_def fetchList_try_def fetchList_store_def
        action_defs pageChangeEffect_def pageSizeChangeEffect_def derived_hasMore_def Let_def
        response_success_def response_data_def response_total_def
      split: option.splits if_splits)

text \<open>
  The theorem at \<^verbatim>\<open>total = 10\<close>, \<^verbatim>\<open>pageSize = 3\<close>: \<^verbatim>\<open>hasMore\<close> is true after the fetch of
  page 3 and false after that of page 4; at \<^verbatim>\<open>total = 9007199254740996\<close>, \<^verbatim>\<open>pageSize = 5\<close>,
  \<^verbatim>\<open>page = 1801439850948199\<close>, where the product rounds up to the total and \<^verbatim>\<open>hasMore\<close> is
  false; and at \<^verbatim>\<open>setPageInfo\<close> with and without \<^verbatim>\<open>hasMore\<close>, and \<^verbatim>\<open>fetchMore\<close>.
\<close>

theorem hasMore_recomputed_or_given_witness:
  "hasMore (pageInfoState (fst (fetchList_settle (render None (hook_at_rest [] (page_info False 3 3 0)), False)
      (respond [7, 8, 9] 10) (hook_at_rest [] (page_info False 3 3 0))))) = True \<and>
   hasMore (pageInfoState (fst (fetchList_settle (render None (hook_at_rest [] (page_info False 4 3 0)), False)
      (respond [10] 10) (hook_at_rest [] (page_info False 4 3 0))))) = False \<and>
   hasMore (pageInfoState (fst (fetchList_settle (render None (hook_at_rest [] rounded_page_info), False)
      (respond [] 9007199254740996) (hook_at_rest [] rounded_page_info)))) = False \<and>
   hasMore (pageInfoState (setPageInfo (render None (hook_at_rest [] (page_info False 4 3 0)))
      (no_fields\<lparr> hasMore_given := Some True \<rparr>) (hook_at_rest [] (page_info False 4 3 0)))) = True \<and>
   hasMore (pageInfoState (setPageInfo (render None (hook_at_rest [] (page_info False 4 3 0)))
      (no_fields\<lparr> page_given := Some (Num 1) \<rparr>) (hook_at_rest [] (page_info False 4 3 0)))) = False \<and>
   hasMore (pageInfoState (fetchMore (render None (hook_at_rest [] (page_info True 3 3 10)))
      (hook_at_rest [] (page_info True 3 3 10)))) = True"
proof -
  let ?h3 = "hook_at_rest [] (page_info False 3 3 0)"
  let ?h4 = "hook_at_rest [] (page_info False 4 3 0)"
  let ?h5 = "hook_at_rest [] (page_info True 3 3 10)"
  let ?h6 = "hook_at_rest [] rounded_page_info"
  let ?rd3 = "Some \<lparr> data = Some [7, 8, 9], success = None, resp_total = Num 10 \<rparr> :: int RequestData option"
  let ?rd4 = "Some \<lparr> data = Some [10], success = None, resp_total = Num 10 \<rparr> :: int RequestData option"
  let ?rd6 = "Some \<lparr> data = Some [], success = None, resp_total = Num 9007199254740996 \<rparr> :: int RequestData option"
  note a = hasMore_recomputed_or_given
    [where resp = ?rd3 and isAppend = False and c = "render None ?h3" and st = ?h3]
  note b = hasMore_recomputed_or_given
    [where resp = ?rd4 and isAppend = False and c = "render None ?h4" and st = ?h4
       and info = "no_fields\<lparr> hasMore_given := Some True \<rparr>" and b = True]
  note d = hasMore_recomputed_or_given
    [where resp = ?rd4 and isAppend = False and c = "render None ?h4" and st = ?h4
       and info = "no_fields\<lparr> page_given := Some (Num 1) \<rparr>"]
  note e = hasMore_recomputed_or_given
    [where resp = ?rd4 and isAppend = False and c = "render None ?h5" and st = ?h5]
  note g = hasMore_recomputed_or_given
    [where resp = ?rd6 and isAppend = False and c = "render None ?h6" and st = ?h6]
  from a have 1: "hasMore (pageInfoState (fst (fetchList_settle (render None ?h3, False) (respond [7, 8, 9] 10) ?h3)))"
    by (simp add: run_defs js_default_def)
  from b have 2: "\<not> hasMore (pageInfoState (fst (fetchList_settle (render None ?h4, False) (respond [10] 10) ?h4)))"
    by (simp add: run_defs js_default_def)
  from g have 6: "\<not> hasMore (pageInfoState (fst (fetchList_settle (render None ?h6, False)
      (respond [] 9007199254740996) ?h6)))"
    by (simp add: run_defs js_default_def double_rounding del: js_mul.simps)
  from b have 3: "hasMore (pageInfoState (setPageInfo (render None ?h4) (no_fields\<lparr> hasMore_given := Some True \<rparr>) ?h4))"
    by (simp add: run_defs)
  from d have 4: "\<not> hasMore (pageInfoState (setPageInfo (render None ?h4) (no_fields\<lparr> page_given := Some (Num 1) \<rparr>) ?h4))"
    by (simp add: run_defs)
  from e have 5: "hasMore (pageInfoState (fetchMore (render None ?h5) ?h5))"
    by (simp add: run_defs)
  from 1 2 3 4 5 6 show ?thesis by simp
qed

text \<open>
  The claim as written lets no operation but \<^verbatim>\<open>reset\<close> set \<^verbatim>\<open>hasMore\<close> by itself; after
  \<^verbatim>\<open>setPageInfo({hasMore: true})\<close> on a new hook \<^verbatim>\<open>hasMore\<close> is true while
  \<^verbatim>\<open>total > pageSize * page\<close> is \<^verbatim>\<open>0 > 20\<close>.
\<close>

theorem setPageInfo_sets_hasMore_alone:
  "observe (hasMore \<circ> pageInfoState \<circ> hook) forced_hasMore = Some True \<and>
   observe (derived_hasMore \<circ> pageInfoState \<circ> hook) forced_hasMore = Some False"
  by (simp add: forced_hasMore_def all_defs)

subsection \<open>The reaction to a new \<^verbatim>\<open>pageSize\<close>\<close>

text \<open>
  Claim C6: when \<^verbatim>\<open>pageSize\<close> changes, the hook goes back to page 1 and fetches; from page
  3, \<^verbatim>\<open>setPageInfo({pageSize: 50})\<close> ends with \<^verbatim>\<open>current === 1\<close>. The effect of lines
  138-144 does write page 1, but the \<^verbatim>\<open>fetchList\<close> it calls next is the one of the same
  render, whose \<^verbatim>\<open>pageInfo\<close> still has page 3: it asks \<^verbatim>\<open>getData\<close> for page 3 at page size
  50 (first two lines below, the run \<open>pageSize_changed\<close>), and when the answer arrives
  line 98 writes that \<^verbatim>\<open>pageInfo\<close> back (\<open>pageSize_fetch_restores_page\<close>). When everything
  has settled
  (\<open>pageSize_changed_settled\<close>) the hook is on page 3 again.
\<close>

theorem pageSize_change_ends_on_old_page:
  "observe (pageInfoState \<circ> hook) pageSize_changed = Some (page_info True 1 50 100) \<and>
   observe (trace \<circ> hook) pageSize_changed =
     Some [GetData (Num 3) (Num 20), OnLoad (Some [5, 6]), GetData (Num 3) (Num 50)] \<and>
   observe (map_option current \<circ> held) pageSize_changed_settled = Some (Some (Num 3)) \<and>
   observe (pageInfoState \<circ> hook) pageSize_changed_settled = Some (page_info False 3 50 100)"
  by (simp add: pageSize_changed_def pageSize_changed_settled_def current_def all_defs)

subsection \<open>\<^verbatim>\<open>reset\<close>\<close>

text \<open>
  Claim C7, as the code has it: whatever the hook holds, \<^verbatim>\<open>reset()\<close> writes the
  \<^verbatim>\<open>PageInfo\<close> \<^verbatim>\<open>{hasMore: false, page: defaultCurrent || 1, total: 0, pageSize:
  defaultPageSize}\<close>, with the defaults read from the options of the render whose
  \<^verbatim>\<open>reset\<close> is called. That is the \<^verbatim>\<open>PageInfo\<close> of a hook constructed with these options,
  and its \<^verbatim>\<open>page\<close> is \<^verbatim>\<open>defaultCurrent\<close> when that is not 0. \<^verbatim>\<open>reset\<close> writes nothing else
  and calls nothing.
\<close>

theorem reset_restores_defaults_of_render:
  "pageInfoState (reset (render options st) st) =
     \<lparr> hasMore = False, page = js_or (resolve_defaultCurrent options) (Num 1),
       pageSize = resolve_defaultPageSize options, total = Num 0 \<rparr> \<and>
   pageInfoState (reset (render options st) st) = pageInfoState (useFetchData_init defaultData options) \<and>
   (truthy (resolve_defaultCurrent options) \<longrightarrow>
      page (pageInfoState (reset (render options st) st)) = resolve_defaultCurrent options) \<and>
   listState (reset c st) = listState st \<and>
   loadingState (reset c st) = loadingState st \<and>
   trace (reset c st) = trace st"
  by (simp add: reset_def render_def useFetchData_init_def js_or_def)

text \<open>
  The theorem at a hook on page 7 of page size 50, rendered with
  \<^verbatim>\<open>{defaultCurrent: 3}\<close>.
\<close>

theorem reset_restores_defaults_of_render_witness:
  "pageInfoState (reset (render opts_current3 (hook_at_rest [1, 2] (page_info True 7 50 100)))
      (hook_at_rest [1, 2] (page_info True 7 50 100))) = page_info False 3 20 0 \<and>
   listState (reset (render opts_current3 (hook_at_rest [1, 2] (page_info True 7 50 100)))
      (hook_at_rest [1, 2] (page_info True 7 50 100))) = Some [1, 2] \<and>
   trace (reset (render opts_current3 (hook_at_rest [1, 2] (page_info True 7 50 100)))
      (hook_at_rest [1, 2] (page_info True 7 50 100))) = []"
proof -
  let ?h = "hook_at_rest [1, 2] (page_info True 7 50 100)"
  have t: "truthy (resolve_defaultCurrent opts_current3)"
    by (simp add: run_defs js_default_def)
  from reset_restores_defaults_of_render
    [where options = opts_current3 and st = ?h and c = "render opts_current3 ?h"] t
  show ?thesis by (simp add: run_defs js_default_def)
qed

text \<open>
  The claim as written has the defaults captured at construction. In the run
  \<open>reset_after_new_options\<close> the hook was constructed with the default page size 20, a
  later render passes \<^verbatim>\<open>{defaultPageSize: 50}\<close>, and \<^verbatim>\<open>reset()\<close> leaves page size 50.
\<close>

theorem reset_follows_later_options:
  "observe (pageInfoState \<circ> hook) reset_after_new_options = Some (page_info False 1 50 0) \<and>
   pageInfoState (useFetchData_init None None :: (int, unit, unit) Hook) = page_info False 1 20 0 \<and>
   observe (pageInfoState \<circ> hook) reset_after_new_options \<noteq>
     Some (pageInfoState (useFetchData_init None None :: (int, unit, unit) Hook))"
  by (simp add: reset_after_new_options_def all_defs)

subsection \<open>The reaction to a new \<^verbatim>\<open>page\<close>\<close>



subsection \<open>\<^verbatim>\<open>setPageInfo\<close>\<close>

text \<open>
  \<^verbatim>\<open>setPageInfo(partial)\<close> spreads the partial over the \<^verbatim>\<open>pageInfo\<close> constant of the render
  whose \<^verbatim>\<open>setPageInfo\<close> is called and writes nothing else. On the object of the latest
  render that constant is the cell, and an omitted field keeps its current value.
\<close>

lemma setPageInfo_on_render:
  "(hasMore_given info = Some b \<longrightarrow> hasMore (pageInfoState (setPageInfo c info st)) = b) \<and>
   (page_given info = Some v1 \<longrightarrow> page (pageInfoState (setPageInfo c info st)) = v1) \<and>
   (pageSize_given info = Some v2 \<longrightarrow> pageSize (pageInfoState (setPageInfo c info st)) = v2) \<and>
   (total_given info = Some v3 \<longrightarrow> total (pageInfoState (setPageInfo c info st)) = v3) \<and>
   (hasMore_given info = None \<longrightarrow> hasMore (pageInfoState (setPageInfo c info st)) = hasMore (pageInfo c)) \<and>
   (page_given info = None \<longrightarrow> page (pageInfoState (setPageInfo c info st)) = page (pageInfo c)) \<and>
   (pageSize_given info = None \<longrightarrow> pageSize (pageInfoState (setPageInfo c info st)) = pageSize (pageInfo c)) \<and>
   (total_given info = None \<longrightarrow> total (pageInfoState (setPageInfo c info st)) = total (pageInfo c)) \<and>
   pageInfo (render options st) = pageInfoState st \<and>
   listState (setPageInfo c info st) = listState st \<and>
   loadingState (setPageInfo c info st) = loadingState st \<and>
   trace (setPageInfo c info st) = trace st"
  by (simp add: setPageInfo_def spread_def render_def)

text \<open>
  Claim C9: \<^verbatim>\<open>setPageInfo(partial)\<close> is a shallow merge into \<^verbatim>\<open>PageInfo\<close>: a field that the
  partial names takes the given value, a field it omits retains its current value. The
  spread of lines 176-179 starts from the \<^verbatim>\<open>pageInfo\<close> constant of the render, not from
  the cell. In the run \<open>setPageInfo_twice\<close> the hook is on page 1 with page size 20; the
  consumer calls \<^verbatim>\<open>setPageInfo({page: 3})\<close> and then \<^verbatim>\<open>setPageInfo({pageSize: 50})\<close> on the
  object of one render. After the first call the page is 3; the second call, which omits
  \<^verbatim>\<open>page\<close>, writes page 1 back.
\<close>

theorem setPageInfo_twice_loses_page:
  "observe (pageInfoState \<circ> hook)
     (run (mount None None)
        [Render None, Settle (respond [1, 2] 100),
         CallSetPageInfo (no_fields\<lparr> page_given := Some (Num 3) \<rparr>)] :: unit error + (int, unit, unit) Mounted)
     = Some (page_info True 3 20 100) \<and>
   observe (pageInfoState \<circ> hook) setPageInfo_twice = Some (page_info True 1 50 100)"
  by (simp add: setPageInfo_twice_def all_defs)

subsection \<open>The page effect on a list that is not there\<close>

text \<open>
  Claim C10: a hook constructed without \<^verbatim>\<open>defaultData\<close> has no list. With no list, a
  previous page and a new, defined page, the page effect throws a \<^verbatim>\<open>TypeError\<close>
  (\<^verbatim>\<open>list.length\<close>); with a list it always returns. A list is there when
  \<^verbatim>\<open>defaultData\<close> was given, and after a replace-mode fetch that resolved with
  \<^verbatim>\<open>success !== false\<close> and a \<^verbatim>\<open>data\<close>.
\<close>

theorem pageChangeEffect_needs_list:
  "listState (useFetchData_init None options) = None \<and>
   list (render options (useFetchData_init None options')) = None \<and>
   (list c = None \<and> truthy (prePage c) \<and> \<not> strict_eq (prePage c) (page (pageInfo c)) \<and>
    page (pageInfo c) \<noteq> Undefined \<longrightarrow> pageChangeEffect c st = Inl TypeError) \<and>
   (list c \<noteq> None \<longrightarrow> (\<exists>r. pageChangeEffect c st = Inr r)) \<and>
   (listState (useFetchData_init (Some xs) options) = Some xs) \<and>
   (succ \<noteq> Some False \<longrightarrow>
      listState (fst (fetchList_settle (c, False)
        (Resolved (Some \<lparr> data = Some ys, success = succ, resp_total = t \<rparr>)) st)) = Some ys)"
  by (auto simp: useFetchData_init_def render_def pageChangeEffect_def fetch_defs Let_def)

text \<open>
  The theorem at \<^verbatim>\<open>setPageInfo({page: 2})\<close> before the first fetch has been answered
  (the whole run is \<open>page_change_before_load\<close>), and at a hook with a list.
\<close>

theorem pageChangeEffect_needs_list_witness:
  "page_change_before_load = Inl TypeError \<and>
   pageChangeEffect
     (render None (setPageInfo (render None hook_unloaded) (no_fields\<lparr> page_given := Some (Num 2) \<rparr>)
        hook_unloaded))
     (setPageInfo (render None hook_unloaded) (no_fields\<lparr> page_given := Some (Num 2) \<rparr>) hook_unloaded)
     = Inl TypeError \<and>
   (\<exists>r. pageChangeEffect (render None (hook_at_rest [1, 2] (page_info True 2 2 4)))
      (hook_at_rest [1, 2] (page_info True 2 2 4)) = Inr r)"
proof -
  let ?u = "setPageInfo (render None hook_unloaded) (no_fields\<lparr> page_given := Some (Num 2) \<rparr>) hook_unloaded"
  let ?c = "render None ?u :: int Closure"
  let ?h = "hook_at_rest [1, 2] (page_info True 2 2 4)"
  have pre: "list ?c = None \<and> truthy (prePage ?c) \<and> \<not> strict_eq (prePage ?c) (page (pageInfo ?c)) \<and>
             page (pageInfo ?c) \<noteq> Undefined"
    by (simp add: run_defs action_defs)
  have def: "list (render None ?h :: int Closure) \<noteq> None"
    by (simp add: run_defs)
  from pageChangeEffect_needs_list [where c = ?c and st = ?u] pre
  have 1: "pageChangeEffect ?c ?u = Inl TypeError" by blast
  from pageChangeEffect_needs_list [where c = "render None ?h" and st = ?h] def
  have 2: "\<exists>r. pageChangeEffect (render None ?h) ?h = Inr r" by blast
  have 3: "page_change_before_load = Inl TypeError"
    by (simp add: page_change_before_load_def all_defs)
  from 1 2 3 show ?thesis by blast
qed

end
